theory Spec2Isabelle
  imports Main "HOL-Library.Word" "HOL-Library.Char_ord" "HOL-Library.List_Lexorder"
begin

text \<open>
  A model of the collection and attestation pipeline of the MiniBeast USB agent: the atomic
  writer, the key files of the signing subsystem, the bounded goroutine pool and the
  collection orchestrator with its snapshot type. The definitions come first, section by
  section, then the lemmas about them, then the properties of the specification.
\<close>

section \<open>Atomic writer (src/core/io/writer.go)\<close>

text \<open>
  The file system is a finite map from paths to file contents. Directories and file
  modes are not part of the state: \<open>os.MkdirAll\<close> and the directory fsync either fail or
  succeed and leave the files as they are, and the \<open>perm\<close> argument of \<open>WriteAtomic\<close> only
  sets the mode of a newly created file.

  Every call into the operating system can fail. Which ones do is an input of the model
  (\<open>fails\<close>); when \<open>Write\<close> fails, \<open>short\<close> is the number of bytes that reached the file
  before the failure.
\<close>

type_synonym path = string
type_synonym bytes = "8 word list"
type_synonym fsys = "path \<rightharpoonup> bytes"

datatype syscall =
  SysMkdirAll | SysOpenFile | SysWrite | SysSync | SysClose | SysRename | SysRemove
  | SysOpenDir | SysSyncDir

record os_env =
  fails :: "syscall \<Rightarrow> bool"
  short :: nat

text \<open>The error returns of \<open>WriteAtomic\<close>, one per \<open>fmt.Errorf\<close> in the source.\<close>

datatype write_error =
  FailedToCreateDirectory
  | FailedToCreateTempFile
  | FailedToWriteData
  | FailedToSyncTempFile
  | FailedToCloseTempFile
  | FailedToRenameFile
  | WarningFailedToSyncDirectory

text \<open>\<open>os.Remove(tempPath)\<close>: the source drops its error, so a failed removal only shows in
  the file that stays behind.\<close>

definition os_Remove :: "os_env \<Rightarrow> path \<Rightarrow> fsys \<Rightarrow> fsys" where
  "os_Remove env p fs = (if fails env SysRemove then fs else fs(p := None))"

text \<open>\<open>os.Rename(old, new)\<close>: atomic; on failure nothing changes (handled by the caller's
  branch), on success the new path holds what the old one held and the old one is gone.\<close>

definition os_Rename :: "path \<Rightarrow> path \<Rightarrow> fsys \<Rightarrow> fsys" where
  "os_Rename old new fs = (fs(new := fs old))(old := None)"

text \<open>\<open>syncDirectory\<close>: open the directory, fsync it; \<open>True\<close> when an error is returned.\<close>

definition syncDirectory :: "os_env \<Rightarrow> bool" where
  "syncDirectory env = (if fails env SysOpenDir then True else fails env SysSyncDir)"

definition WriteAtomic :: "os_env \<Rightarrow> path \<Rightarrow> bytes \<Rightarrow> fsys \<Rightarrow> write_error option \<times> fsys" where
  "WriteAtomic env path data fs =
    (if fails env SysMkdirAll then (Some FailedToCreateDirectory, fs)
     else
       let tempPath = path @ ''.tmp'' in
       if fails env SysOpenFile then (Some FailedToCreateTempFile, fs)
       else
         let opened = fs(tempPath \<mapsto> []) in
         if fails env SysWrite then
           (Some FailedToWriteData,
            os_Remove env tempPath (opened(tempPath \<mapsto> take (short env) data)))
         else
           let written = opened(tempPath \<mapsto> data) in
           if fails env SysSync then
             (Some FailedToSyncTempFile, os_Remove env tempPath written)
           else if fails env SysClose then
             (Some FailedToCloseTempFile, os_Remove env tempPath written)
           else if fails env SysRename then
             (Some FailedToRenameFile, os_Remove env tempPath written)
           else
             let renamed = os_Rename tempPath path written in
             if syncDirectory env then (Some WarningFailedToSyncDirectory, renamed)
             else (None, renamed))"

text \<open>An operating system on which only the listed calls fail.\<close>

definition failing :: "syscall list \<Rightarrow> os_env" where
  "failing cs = \<lparr>fails = (\<lambda>c. c \<in> set cs), short = 0\<rparr>"

section \<open>Key files (package crypto, listed in src/core/summarizer/summarizer.go)\<close>

text \<open>
  Keys are byte strings; \<open>ed25519.PublicKeySize\<close> is 32 and \<open>ed25519.PrivateKeySize\<close> is 64.
  The PEM codec is Go's \<open>encoding/pem\<close>, which is not part of the repository: the key
  functions take it as a parameter (\<open>pem_Decode\<close> for \<open>pem.Decode\<close>, returning the first
  block or \<open>None\<close> for a \<open>nil\<close> block; \<open>pem_EncodeToMemory\<close> for \<open>pem.EncodeToMemory\<close>).
  A block is its type tag and its bytes; the key functions set no headers.
\<close>

definition PublicKeySize :: nat where "PublicKeySize = 32"
definition PrivateKeySize :: nat where "PrivateKeySize = 64"

record pem_Block =
  Type :: string
  Bytes :: bytes

record pem_package =
  pem_Decode :: "bytes \<Rightarrow> pem_Block option"
  pem_EncodeToMemory :: "pem_Block \<Rightarrow> bytes"

datatype key_error =
  FailedToReadKeyFile
  | FailedToReadPublicKeyFile
  | FailedToDecodePEMBlock
  | InvalidPEMBlockType string
  | InvalidPrivateKeySize nat
  | InvalidPublicKeySize nat
  | FailedToWriteTempKey
  | FailedToRenameKey
  | FailedToWriteTempPublicKey
  | FailedToRenamePublicKey

text \<open>\<open>os.WriteFile(path, data, perm)\<close>: open with create and truncate, write, close. \<open>True\<close>
  when it returns an error; a failed write leaves the bytes that reached the file.\<close>

definition os_WriteFile :: "os_env \<Rightarrow> path \<Rightarrow> bytes \<Rightarrow> fsys \<Rightarrow> bool \<times> fsys" where
  "os_WriteFile env p data fs =
     (if fails env SysOpenFile then (True, fs)
      else if fails env SysWrite then (True, fs(p \<mapsto> take (short env) data))
      else if fails env SysClose then (True, fs(p \<mapsto> data))
      else (False, fs(p \<mapsto> data)))"

text \<open>\<open>SavePrivateKey\<close> and \<open>SavePublicKey\<close>: encode, write \<open>path.tmp\<close>, rename it onto \<open>path\<close>
  (removing the temporary file when the rename fails). \<open>LoadPrivateKey\<close> and
  \<open>LoadPublicKey\<close>: read the file, decode the first PEM block, check its type tag, check
  the length of its bytes.\<close>

definition SavePrivateKey ::
  "pem_package \<Rightarrow> os_env \<Rightarrow> bytes \<Rightarrow> path \<Rightarrow> fsys \<Rightarrow> key_error option \<times> fsys" where
  "SavePrivateKey pem env key path fs =
     (let block = \<lparr>Type = ''PRIVATE KEY'', Bytes = key\<rparr>;
          pemData = pem_EncodeToMemory pem block;
          tempPath = path @ ''.tmp'';
          (failed, written) = os_WriteFile env tempPath pemData fs
      in if failed then (Some FailedToWriteTempKey, written)
         else if fails env SysRename then (Some FailedToRenameKey, os_Remove env tempPath written)
         else (None, os_Rename tempPath path written))"

definition LoadPrivateKey :: "pem_package \<Rightarrow> fsys \<Rightarrow> path \<Rightarrow> key_error + bytes" where
  "LoadPrivateKey pem fs path =
     (case fs path of
        None \<Rightarrow> Inl FailedToReadKeyFile
      | Some data \<Rightarrow>
          (case pem_Decode pem data of
             None \<Rightarrow> Inl FailedToDecodePEMBlock
           | Some block \<Rightarrow>
               if Type block \<noteq> ''PRIVATE KEY'' then Inl (InvalidPEMBlockType (Type block))
               else if length (Bytes block) \<noteq> PrivateKeySize then
                 Inl (InvalidPrivateKeySize (length (Bytes block)))
               else Inr (Bytes block)))"

definition SavePublicKey ::
  "pem_package \<Rightarrow> os_env \<Rightarrow> bytes \<Rightarrow> path \<Rightarrow> fsys \<Rightarrow> key_error option \<times> fsys" where
  "SavePublicKey pem env key path fs =
     (let block = \<lparr>Type = ''PUBLIC KEY'', Bytes = key\<rparr>;
          pemData = pem_EncodeToMemory pem block;
          tempPath = path @ ''.tmp'';
          (failed, written) = os_WriteFile env tempPath pemData fs
      in if failed then (Some FailedToWriteTempPublicKey, written)
         else if fails env SysRename then
           (Some FailedToRenamePublicKey, os_Remove env tempPath written)
         else (None, os_Rename tempPath path written))"

definition LoadPublicKey :: "pem_package \<Rightarrow> fsys \<Rightarrow> path \<Rightarrow> key_error + bytes" where
  "LoadPublicKey pem fs path =
     (case fs path of
        None \<Rightarrow> Inl FailedToReadPublicKeyFile
      | Some data \<Rightarrow>
          (case pem_Decode pem data of
             None \<Rightarrow> Inl FailedToDecodePEMBlock
           | Some block \<Rightarrow>
               if Type block \<noteq> ''PUBLIC KEY'' then Inl (InvalidPEMBlockType (Type block))
               else if length (Bytes block) \<noteq> PublicKeySize then
                 Inl (InvalidPublicKeySize (length (Bytes block)))
               else Inr (Bytes block)))"

section \<open>Bounded pool (src/core/collection/pool.go)\<close>

text \<open>
  A context is seen through what \<open>Submit\<close> reads of it: whether its \<open>Done\<close> channel is
  closed and, when it is, the error \<open>ctx.Err()\<close> returns.

  The pool is the struct's state (\<open>workers\<close>, the number of tokens in the buffered channel
  \<open>semaphore\<close>, whose capacity is \<open>workers\<close>, and the counter of \<open>wg\<close>) together with the
  goroutines \<open>Submit\<close> has spawned. A goroutine runs
  \<^verbatim>\<open>defer p.wg.Done(); defer func() { <-p.semaphore }(); task()\<close>,
  so it is \<open>Spawned\<close> (created, \<open>task\<close> not yet called), \<open>InTask\<close> (executing \<open>task\<close>),
  \<open>Releasing\<close> (\<open>task\<close> has returned or panicked, the slot is still held), \<open>Finishing\<close>
  (slot released, \<open>wg.Done\<close> pending) or \<open>Exited\<close>.

  \<open>make(chan struct{}, maxWorkers)\<close> panics for a negative size: \<open>NewBoundedPool\<close> returns
  \<open>None\<close> then. A send on the channel proceeds when the buffer has room. With capacity 0
  the channel is unbuffered and a send needs a waiting receiver; the only receives are
  those of spawned goroutines, and none can be spawned before a first send, so no send
  ever proceeds there, which is what \<open>semaphore < workers\<close> says for \<open>workers = 0\<close>.
\<close>

datatype ctx_error = Canceled | DeadlineExceeded

type_synonym ctx = "ctx_error option"

datatype gphase = Spawned | InTask | Releasing | Finishing | Exited

record 't pool_state =
  workers :: int
  semaphore :: nat
  wg :: int
  goroutines :: "('t \<times> gphase) list"

definition NewBoundedPool :: "int \<Rightarrow> 't pool_state option" where
  "NewBoundedPool maxWorkers =
     (if maxWorkers < 0 then None
      else Some \<lparr>workers = maxWorkers, semaphore = 0, wg = 0, goroutines = []\<rparr>)"

definition spawn :: "'t \<Rightarrow> 't pool_state \<Rightarrow> 't pool_state" where
  "spawn task s = s\<lparr>semaphore := semaphore s + 1, wg := wg s + 1,
                     goroutines := goroutines s @ [(task, Spawned)]\<rparr>"

text \<open>
  \<open>Submit\<close>: the \<open>select\<close> takes the send when the semaphore has room and the \<open>Done\<close> case
  when the context is done; when both can proceed Go chooses one of them at random, and
  when neither can, \<open>Submit\<close> blocks (there is no outcome in that state). After the send:
  \<open>wg.Add(1)\<close>, the \<open>go\<close> statement, \<open>return nil\<close>; the three are taken as one step, since
  between them only the submitting goroutine touches the counter and the new goroutine
  does not exist yet.
\<close>

inductive Submit :: "ctx \<Rightarrow> 't \<Rightarrow> 't pool_state \<Rightarrow> ctx_error option \<times> 't pool_state \<Rightarrow> bool" where
  slot_acquired: "int (semaphore s) < workers s \<Longrightarrow> Submit c task s (None, spawn task s)"
| ctx_done: "c = Some e \<Longrightarrow> Submit c task s (Some e, s)"

definition set_phase :: "nat \<Rightarrow> gphase \<Rightarrow> 't pool_state \<Rightarrow> 't pool_state" where
  "set_phase i p s = s\<lparr>goroutines := (goroutines s)[i := (fst (goroutines s ! i), p)]\<rparr>"

definition phase_of :: "'t pool_state \<Rightarrow> nat \<Rightarrow> gphase option" where
  "phase_of s i = (if i < length (goroutines s) then Some (snd (goroutines s ! i)) else None)"

text \<open>One step of the pool: a \<open>Submit\<close> call returns, or one spawned goroutine moves on.\<close>

inductive pool_step :: "'t pool_state \<Rightarrow> 't pool_state \<Rightarrow> bool" where
  submit: "Submit c task s (r, s') \<Longrightarrow> pool_step s s'"
| start: "phase_of s i = Some Spawned \<Longrightarrow> pool_step s (set_phase i InTask s)"
| task_return: "phase_of s i = Some InTask \<Longrightarrow> pool_step s (set_phase i Releasing s)"
| release: "phase_of s i = Some Releasing \<Longrightarrow> 0 < semaphore s \<Longrightarrow>
     pool_step s (set_phase i Finishing (s\<lparr>semaphore := semaphore s - 1\<rparr>))"
| wg_done: "phase_of s i = Some Finishing \<Longrightarrow> pool_step s (set_phase i Exited (s\<lparr>wg := wg s - 1\<rparr>))"

text \<open>The number of submitted tasks that are executing.\<close>

definition executing :: "'t pool_state \<Rightarrow> nat" where
  "executing s = length (filter (\<lambda>g. snd g = InTask) (goroutines s))"

section \<open>Snapshot types (src/core/platform/types/types.go, src/core/collection/types.go)\<close>

text \<open>
  Go slices are references: a slice value is \<open>nil\<close>, the empty literal \<open>[]T{}\<close>, or a view
  of a backing array that other slice values may share. The arrays live in a memory
  indexed by address, with one address space per element type. A slice that has a
  backing array is the whole array at its address, so two slice values either are the same
  slice (as \<open>LocalIPs\<close> and \<open>MACAddresses\<close> are after the merge) or have separate arrays;
  slices that overlap only in part are not represented.

  The fields of the four capability results carry a prefix (\<open>SI_\<close>, \<open>NI_\<close>, \<open>HI_\<close>, \<open>PII_\<close>,
  \<open>UP_\<close>) where \<open>Facts\<close> or \<open>User\<close> has a field of the same name. \<open>Timestamp\<close> is the instant
  as a number (nanoseconds since the epoch, UTC).
\<close>

type_synonym addr = nat

datatype 'a slice = NilSlice | EmptySlice | Arr addr

record User =
  Username :: string
  FullName :: string
  UID :: string

record UserProfile =
  UP_Username :: string
  UP_LastLogon :: string
  UP_LogonCount :: int

record NetworkInterface =
  Name :: string
  IPAddress :: string
  MACAddress :: string

record SystemInfo =
  SI_OSName :: string
  SI_OSVersion :: string
  SI_OSBuild :: string
  SI_Timezone :: string
  SI_Hostname :: string

record NetworkInfo =
  NI_Interfaces :: "NetworkInterface slice"
  NI_WiFiSSIDs :: "string slice"

record HardwareInfo =
  HI_SerialNumber :: string
  HI_HardwareUUID :: string

record PIIInfo =
  PII_Users :: "User slice"
  PII_LoggedInUsers :: "string slice"
  PII_HomeDirs :: "string slice"
  PII_RecentProfiles :: "UserProfile slice"
  PII_PrimaryEmail :: string

record memory =
  userArrays :: "addr \<Rightarrow> User list"
  stringArrays :: "addr \<Rightarrow> string list"
  ifaceArrays :: "addr \<Rightarrow> NetworkInterface list"
  profileArrays :: "addr \<Rightarrow> UserProfile list"

record Facts =
  Timestamp :: int
  CollectionDurationMs :: int
  CollectorVersion :: string
  Hostname :: string
  MachineOwner :: string
  ComputerName :: string
  Users :: "User slice"
  LoggedInUsers :: "string slice"
  HomeDirs :: "string slice"
  RecentProfiles :: "UserProfile slice"
  PrimaryEmail :: string
  LocalIPs :: "NetworkInterface slice"
  MACAddresses :: "NetworkInterface slice"
  WiFiSSIDs :: "string slice"
  SerialNumber :: string
  HardwareUUID :: string
  OSName :: string
  OSVersion :: string
  OSBuild :: string
  Timezone :: string

text \<open>\<open>Facts.Validate\<close>: \<open>None\<close> for \<open>nil\<close>, otherwise the \<open>ValidationError\<close> with its field and
  reason.\<close>

datatype ValidationError = ValidationError string string

definition Validate :: "Facts \<Rightarrow> ValidationError option" where
  "Validate f =
    (if Hostname f = '''' then Some (ValidationError ''hostname'' ''must not be empty'')
     else if OSName f = '''' then Some (ValidationError ''os_name'' ''must not be empty'')
     else if HardwareUUID f = '''' then
       Some (ValidationError ''hardware_uuid'' ''must not be empty'')
     else None)"

datatype Category =
  CategorySystemInfo | CategoryNetworkInfo | CategoryHardwareInfo | CategoryPIIInfo

section \<open>The ordering pass (sortFacts in src/core/collection/collector.go)\<close>

text \<open>
  \<open>sort.Slice\<close> and \<open>sort.Strings\<close> belong to Go's standard library. For a slice of at most
  twelve elements they run the insertion sort below: each element in turn moves left past
  every element it is less than (\<open>sift\<close> inserts one element into the sorted prefix, which
  it holds in reverse, nearest neighbour first). Longer slices are partitioned first
  (pattern-defeating quicksort); that sort is not stable, so the order it gives to elements
  with equal keys can differ from the one computed here. What the proofs below use of the
  sort is that its result is ordered by the comparison and that a slice already in order is
  returned as it is; the library's sort of Go 1.22, which the project requires, has both
  properties (on a slice in order its first pass finds no pair out of order and returns).

  Strings compare bytewise, a proper prefix first, as Go's \<open><\<close> on strings does.
\<close>

fun sift :: "('a \<Rightarrow> 'a \<Rightarrow> bool) \<Rightarrow> 'a \<Rightarrow> 'a list \<Rightarrow> 'a list" where
  "sift lt x [] = [x]"
| "sift lt x (y # ys) = (if lt x y then y # sift lt x ys else x # y # ys)"

definition insertionSort :: "('a \<Rightarrow> 'a \<Rightarrow> bool) \<Rightarrow> 'a list \<Rightarrow> 'a list" where
  "insertionSort lt xs = rev (foldl (\<lambda>prefix x. sift lt x prefix) [] xs)"

definition sort_Slice :: "('a \<Rightarrow> 'a \<Rightarrow> bool) \<Rightarrow> 'a list \<Rightarrow> 'a list" where
  "sort_Slice lt xs = insertionSort lt xs"

definition sort_Strings :: "string list \<Rightarrow> string list" where
  "sort_Strings xs = insertionSort (\<lambda>a b. a < b) xs"

text \<open>The three comparison closures of \<open>sortFacts\<close>.\<close>

definition less_user :: "User \<Rightarrow> User \<Rightarrow> bool" where
  "less_user a b = (Username a < Username b)"

definition less_iface :: "NetworkInterface \<Rightarrow> NetworkInterface \<Rightarrow> bool" where
  "less_iface a b = (Name a < Name b)"

definition less_profile :: "UserProfile \<Rightarrow> UserProfile \<Rightarrow> bool" where
  "less_profile a b =
    (if UP_Username a = UP_Username b then UP_LastLogon a > UP_LastLogon b
     else UP_Username a < UP_Username b)"

text \<open>Sorting a slice sorts its backing array in place; \<open>nil\<close> and \<open>[]T{}\<close> have nothing to
  sort. \<open>sortFacts\<close> sorts the seven slice fields in the order of the source; the struct
  itself (the slice values it holds) does not change.\<close>

definition sort_in_place :: "('a list \<Rightarrow> 'a list) \<Rightarrow> 'a slice \<Rightarrow> (addr \<Rightarrow> 'a list) \<Rightarrow> (addr \<Rightarrow> 'a list)" where
  "sort_in_place srt s arrays =
    (case s of Arr a \<Rightarrow> arrays(a := srt (arrays a)) | _ \<Rightarrow> arrays)"

definition sortFacts :: "Facts \<Rightarrow> memory \<Rightarrow> memory" where
  "sortFacts facts m0 =
    (let m1 = m0\<lparr>userArrays := sort_in_place (sort_Slice less_user) (Users facts) (userArrays m0)\<rparr>;
         m2 = m1\<lparr>stringArrays := sort_in_place sort_Strings (LoggedInUsers facts) (stringArrays m1)\<rparr>;
         m3 = m2\<lparr>stringArrays := sort_in_place sort_Strings (HomeDirs facts) (stringArrays m2)\<rparr>;
         m4 = m3\<lparr>stringArrays := sort_in_place sort_Strings (WiFiSSIDs facts) (stringArrays m3)\<rparr>;
         m5 = m4\<lparr>ifaceArrays := sort_in_place (sort_Slice less_iface) (LocalIPs facts) (ifaceArrays m4)\<rparr>;
         m6 = m5\<lparr>ifaceArrays := sort_in_place (sort_Slice less_iface) (MACAddresses facts) (ifaceArrays m5)\<rparr>;
         m7 = m6\<lparr>profileArrays := sort_in_place (sort_Slice less_profile) (RecentProfiles facts) (profileArrays m6)\<rparr>
     in m7)"

section \<open>The collection orchestrator (CollectAll in src/core/collection/collector.go)\<close>

text \<open>
  The configuration is the part of \<open>config.Config\<close> the collector reads. The platform
  collector is the capability interface; a run of \<open>CollectAll\<close> calls each operation at
  most once, so the interface is given by what each call returns in this run: an error,
  or a pointer to a result (possibly \<open>nil\<close>). A call that exceeds its per-category timeout
  is one that returns an error.
\<close>

record Config =
  PII :: bool
  CategoryTimeoutMs :: int
  MaxGoroutines :: int

datatype 'a reply = Failed string | Replied "'a option"

record platform_Collector =
  GetSystemInfo :: "SystemInfo reply"
  GetNetworkInfo :: "NetworkInfo reply"
  GetHardwareInfo :: "HardwareInfo reply"
  GetPIIInfo :: "PIIInfo reply"

record Collector =
  config :: Config
  platformCollector :: platform_Collector
  timeout :: int
  poolSize :: int

text \<open>The clock readings of one run: \<open>time.Now()\<close> at the start, \<open>time.Now().UTC()\<close> for the
  timestamp, and \<open>time.Since(startTime)\<close> in nanoseconds. \<open>Duration.Milliseconds\<close> divides by
  \<open>1e6\<close>, truncating toward zero.\<close>

record clock =
  now_start :: int
  now_stamp :: int
  since_start :: int

definition Milliseconds :: "int \<Rightarrow> int" where
  "Milliseconds d = (if 0 \<le> d then d div 1000000 else - ((- d) div 1000000))"

text \<open>
  The channels of one run, each with the values sent and not yet received, and the log of
  the capability operations invoked. An error sent on \<open>errChan\<close> is the underlying error
  wrapped with the name of its category. No send blocks: each result channel has capacity
  1 and receives at most one value, \<open>errChan\<close> has capacity 4.
\<close>

record run_state =
  systemChan :: "SystemInfo option list"
  networkChan :: "NetworkInfo option list"
  hardwareChan :: "HardwareInfo option list"
  piiChan :: "PIIInfo option list"
  errChan :: "(Category \<times> string) list"
  calls :: "Category list"

definition channels_made :: run_state where
  "channels_made = \<lparr>systemChan = [], networkChan = [], hardwareChan = [], piiChan = [],
                      errChan = [], calls = []\<rparr>"

text \<open>The four task closures. The PII task returns at once when PII collection is
  disabled.\<close>

fun category_task :: "Collector \<Rightarrow> Category \<Rightarrow> run_state \<Rightarrow> run_state" where
  "category_task c CategorySystemInfo st =
     (case GetSystemInfo (platformCollector c) of
        Failed err \<Rightarrow> st\<lparr>errChan := errChan st @ [(CategorySystemInfo, err)],
                          calls := calls st @ [CategorySystemInfo]\<rparr>
      | Replied info \<Rightarrow> st\<lparr>systemChan := systemChan st @ [info],
                            calls := calls st @ [CategorySystemInfo]\<rparr>)"
| "category_task c CategoryNetworkInfo st =
     (case GetNetworkInfo (platformCollector c) of
        Failed err \<Rightarrow> st\<lparr>errChan := errChan st @ [(CategoryNetworkInfo, err)],
                          calls := calls st @ [CategoryNetworkInfo]\<rparr>
      | Replied info \<Rightarrow> st\<lparr>networkChan := networkChan st @ [info],
                            calls := calls st @ [CategoryNetworkInfo]\<rparr>)"
| "category_task c CategoryHardwareInfo st =
     (case GetHardwareInfo (platformCollector c) of
        Failed err \<Rightarrow> st\<lparr>errChan := errChan st @ [(CategoryHardwareInfo, err)],
                          calls := calls st @ [CategoryHardwareInfo]\<rparr>
      | Replied info \<Rightarrow> st\<lparr>hardwareChan := hardwareChan st @ [info],
                            calls := calls st @ [CategoryHardwareInfo]\<rparr>)"
| "category_task c CategoryPIIInfo st =
     (if \<not> PII (config c) then st
      else
        case GetPIIInfo (platformCollector c) of
          Failed err \<Rightarrow> st\<lparr>errChan := errChan st @ [(CategoryPIIInfo, err)],
                            calls := calls st @ [CategoryPIIInfo]\<rparr>
        | Replied info \<Rightarrow> st\<lparr>piiChan := piiChan st @ [info],
                              calls := calls st @ [CategoryPIIInfo]\<rparr>)"

definition categories :: "Category list" where
  "categories = [CategorySystemInfo, CategoryNetworkInfo, CategoryHardwareInfo, CategoryPIIInfo]"

text \<open>
  The tasks run concurrently. Each one calls its capability and then sends once, so a run
  is determined by the order in which the tasks do so: \<open>finish\<close> gives each category the
  instant at which its task completes (ties go to the category submitted first), and
  \<open>run_tasks\<close> performs the tasks in that order.
\<close>

definition completion :: "(Category \<Rightarrow> nat) \<Rightarrow> Category list \<Rightarrow> Category list" where
  "completion finish started = sort_key finish started"

definition run_tasks :: "Collector \<Rightarrow> Category list \<Rightarrow> run_state" where
  "run_tasks c order = foldl (\<lambda>st cat. category_task c cat st) channels_made order"

text \<open>
  The submission loop. \<open>ctx_at cat\<close> is \<open>Some err\<close> when the \<open>Submit\<close> call for \<open>cat\<close> returns
  \<open>ctx.Err() = err\<close>, and \<open>None\<close> when its \<open>select\<close> never takes the \<open>Done\<close> case. In that case
  \<open>Submit\<close> returns once a slot is free, which happens when the pool has at least one
  worker (the tasks holding the slots finish); with no worker it blocks for ever.
\<close>

datatype submitted =
  AllSubmitted "Category list"
  | SubmitFailed Category ctx_error "Category list"
  | SubmitBlocked "Category list"

fun submit_all ::
  "Category pool_state \<Rightarrow> (Category \<Rightarrow> ctx) \<Rightarrow> Category list \<Rightarrow> Category list \<Rightarrow> submitted" where
  "submit_all pool ctx_at started [] = AllSubmitted started"
| "submit_all pool ctx_at started (cat # cats) =
     (case ctx_at cat of
        Some err \<Rightarrow> SubmitFailed cat err started
      | None \<Rightarrow>
          if workers pool = 0 then SubmitBlocked started
          else submit_all pool ctx_at (started @ [cat]) cats)"

text \<open>Receiving from a closed channel yields the buffered value if there is one and the
  zero value (\<open>nil\<close>) otherwise. \<open>elems\<close> reads the elements of a slice.\<close>

definition recv :: "'a option list \<Rightarrow> 'a option" where
  "recv ch = (case ch of [] \<Rightarrow> None | v # _ \<Rightarrow> v)"

definition elems :: "(addr \<Rightarrow> 'a list) \<Rightarrow> 'a slice \<Rightarrow> 'a list" where
  "elems arrays s = (case s of Arr a \<Rightarrow> arrays a | _ \<Rightarrow> [])"

text \<open>The initial \<open>Facts\<close> and the four merge steps of the aggregation.\<close>

definition new_Facts :: "clock \<Rightarrow> Facts" where
  "new_Facts clk =
     \<lparr>Timestamp = now_stamp clk, CollectionDurationMs = 0, CollectorVersion = ''1.0.0'',
      Hostname = '''', MachineOwner = '''', ComputerName = '''',
      Users = EmptySlice, LoggedInUsers = EmptySlice, HomeDirs = EmptySlice,
      RecentProfiles = EmptySlice, PrimaryEmail = '''',
      LocalIPs = EmptySlice, MACAddresses = EmptySlice, WiFiSSIDs = EmptySlice,
      SerialNumber = '''', HardwareUUID = '''',
      OSName = '''', OSVersion = '''', OSBuild = '''', Timezone = ''''\<rparr>"

definition merge_system :: "SystemInfo option \<Rightarrow> Facts \<Rightarrow> Facts" where
  "merge_system got facts =
     (case got of
        None \<Rightarrow> facts
      | Some systemInfo \<Rightarrow>
          facts\<lparr>Hostname := SI_Hostname systemInfo, ComputerName := SI_Hostname systemInfo,
                OSName := SI_OSName systemInfo, OSVersion := SI_OSVersion systemInfo,
                OSBuild := SI_OSBuild systemInfo, Timezone := SI_Timezone systemInfo\<rparr>)"

definition merge_network :: "NetworkInfo option \<Rightarrow> Facts \<Rightarrow> Facts" where
  "merge_network got facts =
     (case got of
        None \<Rightarrow> facts
      | Some networkInfo \<Rightarrow>
          facts\<lparr>LocalIPs := NI_Interfaces networkInfo, MACAddresses := NI_Interfaces networkInfo,
                WiFiSSIDs := NI_WiFiSSIDs networkInfo\<rparr>)"

definition merge_hardware :: "HardwareInfo option \<Rightarrow> Facts \<Rightarrow> Facts" where
  "merge_hardware got facts =
     (case got of
        None \<Rightarrow> facts
      | Some hardwareInfo \<Rightarrow>
          facts\<lparr>SerialNumber := HI_SerialNumber hardwareInfo,
                HardwareUUID := HI_HardwareUUID hardwareInfo\<rparr>)"

definition merge_pii :: "memory \<Rightarrow> PIIInfo option \<Rightarrow> Facts \<Rightarrow> Facts" where
  "merge_pii m got facts =
     (case got of
        None \<Rightarrow> facts
      | Some piiInfo \<Rightarrow>
          let facts1 = facts\<lparr>Users := PII_Users piiInfo,
                             LoggedInUsers := PII_LoggedInUsers piiInfo,
                             HomeDirs := PII_HomeDirs piiInfo,
                             RecentProfiles := PII_RecentProfiles piiInfo,
                             PrimaryEmail := PII_PrimaryEmail piiInfo\<rparr>
          in (case elems (userArrays m) (PII_Users piiInfo) of
                [] \<Rightarrow> facts1
              | first # _ \<Rightarrow> facts1\<lparr>MachineOwner := Username first\<rparr>))"

definition aggregate :: "memory \<Rightarrow> run_state \<Rightarrow> Facts \<Rightarrow> Facts" where
  "aggregate m st facts =
     merge_pii m (recv (piiChan st))
       (merge_hardware (recv (hardwareChan st))
         (merge_network (recv (networkChan st))
           (merge_system (recv (systemChan st)) facts)))"

text \<open>
  \<open>CollectAll\<close> panics in \<open>NewBoundedPool\<close> for a negative pool size, blocks in the first
  \<open>Submit\<close> for a pool of size 0 (unless the context ends), returns the submission error
  when a \<open>Submit\<close> returns one, and otherwise waits for the tasks, aggregates, sorts,
  stamps the duration and validates. Besides what it returns, a run records the local
  \<open>collectionErrors\<close> and the capability operations that were invoked.
\<close>

datatype collect_error =
  FailedToSubmit Category ctx_error
  | FactsValidationFailed ValidationError

datatype outcome =
  Panics
  | Blocks
  | ReturnsError collect_error
  | ReturnsFacts Facts memory

record collect_run =
  returned :: outcome
  collectionErrors :: "(Category \<times> string) list"
  capabilityCalls :: "Category list"

definition CollectAll ::
  "Collector \<Rightarrow> (Category \<Rightarrow> ctx) \<Rightarrow> (Category \<Rightarrow> nat) \<Rightarrow> clock \<Rightarrow> memory \<Rightarrow> collect_run" where
  "CollectAll c ctx_at finish clk m =
     (case NewBoundedPool (poolSize c) of
        None \<Rightarrow> \<lparr>returned = Panics, collectionErrors = [], capabilityCalls = []\<rparr>
      | Some pool \<Rightarrow>
          (case submit_all pool ctx_at [] categories of
             SubmitFailed cat err started \<Rightarrow>
               \<lparr>returned = ReturnsError (FailedToSubmit cat err), collectionErrors = [],
                capabilityCalls = calls (run_tasks c (completion finish started))\<rparr>
           | SubmitBlocked started \<Rightarrow>
               \<lparr>returned = Blocks, collectionErrors = [],
                capabilityCalls = calls (run_tasks c (completion finish started))\<rparr>
           | AllSubmitted started \<Rightarrow>
               let st = run_tasks c (completion finish started);
                   merged = aggregate m st (new_Facts clk);
                   m' = sortFacts merged m;
                   facts = merged\<lparr>CollectionDurationMs := Milliseconds (since_start clk)\<rparr>
               in \<lparr>returned =
                     (case Validate facts of
                        Some err \<Rightarrow> ReturnsError (FactsValidationFailed err)
                      | None \<Rightarrow> ReturnsFacts facts m'),
                   collectionErrors = errChan st,
                   capabilityCalls = calls st\<rparr>))"

section \<open>Vocabulary of the proofs\<close>


text \<open>The pool invariant: the goroutines that hold a slot are as many as the tokens in the
  semaphore, which never exceed its capacity.\<close>

definition count_phase :: "(gphase \<Rightarrow> bool) \<Rightarrow> 't pool_state \<Rightarrow> nat" where
  "count_phase P s = length (filter (\<lambda>g. P (snd g)) (goroutines s))"

definition holds_slot :: "gphase \<Rightarrow> bool" where
  "holds_slot p = (p = Spawned \<or> p = InTask \<or> p = Releasing)"

definition pool_inv :: "'t pool_state \<Rightarrow> bool" where
  "pool_inv s = (count_phase holds_slot s = semaphore s \<and> int (semaphore s) \<le> workers s)"

text \<open>What one task sends, what a reply delivers to the aggregation, and the merged
  \<open>Facts\<close> as a function of the replies.\<close>

definition sends :: "Collector \<Rightarrow> Category \<Rightarrow> run_state" where
  "sends c cat = category_task c cat channels_made"

fun facts_of :: "outcome \<Rightarrow> Facts option" where
  "facts_of (ReturnsFacts f m) = Some f"
| "facts_of _ = None"

definition delivered :: "'a reply \<Rightarrow> 'a option" where
  "delivered r = (case r of Failed err \<Rightarrow> None | Replied info \<Rightarrow> info)"

definition merged_facts :: "platform_Collector \<Rightarrow> bool \<Rightarrow> clock \<Rightarrow> memory \<Rightarrow> Facts" where
  "merged_facts pc pii clk m =
     merge_pii m (if pii then delivered (GetPIIInfo pc) else None)
       (merge_hardware (delivered (GetHardwareInfo pc))
         (merge_network (delivered (GetNetworkInfo pc))
           (merge_system (delivered (GetSystemInfo pc)) (new_Facts clk))))"

section \<open>Example inputs\<close>

text \<open>A host with two users and two interfaces, a collector on it, two clocks, a schedule
  on which the PII task completes first, and the same host with a network capability that
  times out.\<close>

definition linux_box :: platform_Collector where
  "linux_box =
     \<lparr>GetSystemInfo = Replied (Some \<lparr>SI_OSName = ''Linux'', SI_OSVersion = ''6.2.0'',
          SI_OSBuild = ''jammy'', SI_Timezone = ''UTC'', SI_Hostname = ''box''\<rparr>),
      GetNetworkInfo = Replied (Some \<lparr>NI_Interfaces = Arr 0, NI_WiFiSSIDs = Arr 0\<rparr>),
      GetHardwareInfo = Replied (Some \<lparr>HI_SerialNumber = ''S1'', HI_HardwareUUID = ''U1''\<rparr>),
      GetPIIInfo = Replied (Some \<lparr>PII_Users = Arr 0, PII_LoggedInUsers = Arr 1,
          PII_HomeDirs = Arr 2, PII_RecentProfiles = Arr 0, PII_PrimaryEmail = ''''\<rparr>)\<rparr>"

definition box_memory :: memory where
  "box_memory =
     \<lparr>userArrays = (\<lambda>_. [\<lparr>Username = ''root'', FullName = ''root'', UID = ''0''\<rparr>,
                           \<lparr>Username = ''ann'', FullName = ''Ann'', UID = ''1000''\<rparr>]),
      stringArrays = (\<lambda>a. if a = 0 then [''home'', ''cafe''] else if a = 1 then [''ann'']
                          else [''/root'', ''/home/ann'']),
      ifaceArrays = (\<lambda>_. [\<lparr>Name = ''lo'', IPAddress = ''127.0.0.1'', MACAddress = ''''\<rparr>,
                           \<lparr>Name = ''eth0'', IPAddress = ''10.0.0.2'', MACAddress = ''aa:bb''\<rparr>]),
      profileArrays = (\<lambda>_. [])\<rparr>"

definition collector_of :: "platform_Collector \<Rightarrow> bool \<Rightarrow> int \<Rightarrow> Collector" where
  "collector_of pc pii n =
     \<lparr>config = \<lparr>PII = pii, CategoryTimeoutMs = 500, MaxGoroutines = n\<rparr>,
      platformCollector = pc, timeout = 500000000, poolSize = n\<rparr>"

definition clock_a :: clock where
  "clock_a = \<lparr>now_start = 5, now_stamp = 6, since_start = 42000000\<rparr>"

definition clock_b :: clock where
  "clock_b = \<lparr>now_start = 1005, now_stamp = 1006, since_start = 43000000\<rparr>"

definition pii_first :: "Category \<Rightarrow> nat" where
  "pii_first cat = (if cat = CategoryPIIInfo then 0 else 1)"

definition no_network :: platform_Collector where
  "no_network = linux_box\<lparr>GetNetworkInfo := Failed ''context deadline exceeded''\<rparr>"

text \<open>A pool of one worker to which two tasks were submitted (the first has finished, the
  second is executing), and a full pool of one worker.\<close>

definition two_on_one :: "string pool_state" where
  "two_on_one = \<lparr>workers = 1, semaphore = 1, wg = 1,
                   goroutines = [(''system_info'', Exited), (''network_info'', InTask)]\<rparr>"

definition pool_full :: "string pool_state" where
  "pool_full = \<lparr>workers = 1, semaphore = 1, wg = 1, goroutines = [(''system_info'', InTask)]\<rparr>"

text \<open>A stand-in for the PEM codec in examples: one tag byte, then the payload. (Go's
  codec writes base64 between \<open>BEGIN\<close> and \<open>END\<close> lines.)\<close>

definition tagged_codec :: pem_package where
  "tagged_codec =
     \<lparr>pem_Decode = (\<lambda>data. case data of
          [] \<Rightarrow> None
        | tag # payload \<Rightarrow>
            Some \<lparr>Type = (if tag = 1 then ''PRIVATE KEY'' else ''PUBLIC KEY''), Bytes = payload\<rparr>),
      pem_EncodeToMemory = (\<lambda>block.
          (if Type block = ''PRIVATE KEY'' then 1 else 0) # Bytes block)\<rparr>"

section \<open>Lemmas about the pool\<close>

lemma filter_update_count:
  "i < length xs \<Longrightarrow>
   int (length (filter P (xs[i := y]))) =
   int (length (filter P xs)) - (if P (xs ! i) then 1 else 0) + (if P y then 1 else 0)"
proof -
  assume i: "i < length xs"
  have upd: "xs[i := y] = take i xs @ y # drop (Suc i) xs"
    using i by (rule upd_conv_take_nth_drop)
  have "xs = take i xs @ xs ! i # drop (Suc i) xs"
    using i by (rule id_take_nth_drop)
  then have "length (filter P xs) = length (filter P (take i xs @ xs ! i # drop (Suc i) xs))"
    by simp
  then show ?thesis by (simp add: upd)
qed

lemma count_set_phase:
  "phase_of s i = Some q \<Longrightarrow>
   int (count_phase P (set_phase i p s)) =
   int (count_phase P s) - (if P q then 1 else 0) + (if P p then 1 else 0)"
proof -
  assume a: "phase_of s i = Some q"
  then have i: "i < length (goroutines s)" and q: "snd (goroutines s ! i) = q"
    by (auto simp: phase_of_def split: if_splits)
  from filter_update_count [OF i, of "\<lambda>g. P (snd g)" "(fst (goroutines s ! i), p)"] q
  show ?thesis by (simp add: count_phase_def set_phase_def)
qed

lemma count_spawn: "count_phase P (spawn t s) = count_phase P s + (if P Spawned then 1 else 0)"
  by (simp add: count_phase_def spawn_def)

lemma set_phase_fields [simp]:
  "semaphore (set_phase i p s) = semaphore s" "workers (set_phase i p s) = workers s"
  "wg (set_phase i p s) = wg s"
  by (simp_all add: set_phase_def)

lemma count_phase_upd [simp]:
  "count_phase P (s\<lparr>semaphore := n\<rparr>) = count_phase P s"
  "count_phase P (s\<lparr>wg := k\<rparr>) = count_phase P s"
  by (simp_all add: count_phase_def)

lemma phase_of_upd [simp]:
  "phase_of (s\<lparr>semaphore := n\<rparr>) i = phase_of s i"
  "phase_of (s\<lparr>wg := k\<rparr>) i = phase_of s i"
  by (simp_all add: phase_of_def)

lemma pool_inv_step: "pool_step s s' \<Longrightarrow> pool_inv s \<Longrightarrow> pool_inv s'"
proof (induction rule: pool_step.induct)
  case (submit c task s r s')
  then show ?case
  proof (cases rule: Submit.cases)
    case slot_acquired
    with submit(2) show ?thesis
      by (simp add: pool_inv_def count_spawn holds_slot_def) (simp add: spawn_def)
  next
    case (ctx_done e)
    with submit(2) show ?thesis by simp
  qed
next
  case (start s i)
  from count_set_phase [OF start(1), of holds_slot InTask] start(2)
  show ?case by (simp add: pool_inv_def holds_slot_def)
next
  case (task_return s i)
  from count_set_phase [OF task_return(1), of holds_slot Releasing] task_return(2)
  show ?case by (simp add: pool_inv_def holds_slot_def)
next
  case (release s i)
  have "phase_of (s\<lparr>semaphore := semaphore s - 1\<rparr>) i = Some Releasing"
    using release(1) by simp
  from count_set_phase [OF this, of holds_slot Finishing] release(2,3)
  show ?case by (simp add: pool_inv_def holds_slot_def)
next
  case (wg_done s i)
  have "phase_of (s\<lparr>wg := wg s - 1\<rparr>) i = Some Finishing"
    using wg_done(1) by simp
  from count_set_phase [OF this, of holds_slot Exited] wg_done(2)
  show ?case by (simp add: pool_inv_def holds_slot_def)
qed

lemma pool_step_workers: "pool_step s s' \<Longrightarrow> workers s' = workers s"
  by (induction rule: pool_step.induct) (auto simp: spawn_def elim!: Submit.cases)

lemma reachable_workers: "pool_step\<^sup>*\<^sup>* s0 s \<Longrightarrow> workers s = workers s0"
  by (induction rule: rtranclp_induct) (auto dest: pool_step_workers)

lemma pool_inv_reachable:
  "pool_step\<^sup>*\<^sup>* s0 s \<Longrightarrow> pool_inv s0 \<Longrightarrow> pool_inv s"
  by (induction rule: rtranclp_induct) (auto intro: pool_inv_step)

lemma executing_le_holding: "executing s \<le> count_phase holds_slot s"
proof -
  have "length (filter (\<lambda>g. snd g = InTask) xs) \<le> length (filter (\<lambda>g. holds_slot (snd g)) xs)"
    for xs :: "('t \<times> gphase) list"
    by (induction xs) (auto simp: holds_slot_def)
  then show ?thesis by (simp add: executing_def count_phase_def)
qed

lemma two_on_one_reachable:
  "pool_step\<^sup>*\<^sup>* \<lparr>workers = 1, semaphore = 0, wg = 0, goroutines = []\<rparr> two_on_one"
proof -
  let ?s0 = "\<lparr>workers = 1, semaphore = 0, wg = 0, goroutines = []\<rparr> :: string pool_state"
  let ?s1 = "\<lparr>workers = 1, semaphore = 1, wg = 1, goroutines = [(''system_info'', Spawned)]\<rparr> :: string pool_state"
  let ?s2 = "\<lparr>workers = 1, semaphore = 1, wg = 1, goroutines = [(''system_info'', InTask)]\<rparr> :: string pool_state"
  let ?s3 = "\<lparr>workers = 1, semaphore = 1, wg = 1, goroutines = [(''system_info'', Releasing)]\<rparr> :: string pool_state"
  let ?s4 = "\<lparr>workers = 1, semaphore = 0, wg = 1, goroutines = [(''system_info'', Finishing)]\<rparr> :: string pool_state"
  let ?s5 = "\<lparr>workers = 1, semaphore = 0, wg = 0, goroutines = [(''system_info'', Exited)]\<rparr> :: string pool_state"
  let ?s6 = "\<lparr>workers = 1, semaphore = 1, wg = 1,
      goroutines = [(''system_info'', Exited), (''network_info'', Spawned)]\<rparr> :: string pool_state"
  have "Submit None ''system_info'' ?s0 (None, spawn ''system_info'' ?s0)"
    by (rule Submit.slot_acquired) simp
  then have 1: "pool_step ?s0 ?s1"
    using pool_step.submit [of None "''system_info''" ?s0 None ?s1] by (simp add: spawn_def)
  have 2: "pool_step ?s1 ?s2"
    using pool_step.start [of ?s1 0] by (simp add: phase_of_def set_phase_def)
  have 3: "pool_step ?s2 ?s3"
    using pool_step.task_return [of ?s2 0] by (simp add: phase_of_def set_phase_def)
  have 4: "pool_step ?s3 ?s4"
    using pool_step.release [of ?s3 0] by (simp add: phase_of_def set_phase_def)
  have 5: "pool_step ?s4 ?s5"
    using pool_step.wg_done [of ?s4 0] by (simp add: phase_of_def set_phase_def)
  have "Submit None ''network_info'' ?s5 (None, spawn ''network_info'' ?s5)"
    by (rule Submit.slot_acquired) simp
  then have 6: "pool_step ?s5 ?s6"
    using pool_step.submit [of None "''network_info''" ?s5 None ?s6] by (simp add: spawn_def)
  have 7: "pool_step ?s6 two_on_one"
    using pool_step.start [of ?s6 1] by (simp add: phase_of_def set_phase_def two_on_one_def)
  have "pool_step\<^sup>*\<^sup>* ?s0 ?s1" using 1 by (rule r_into_rtranclp)
  then have "pool_step\<^sup>*\<^sup>* ?s0 ?s2" using 2 by (rule rtranclp.rtrancl_into_rtrancl)
  then have "pool_step\<^sup>*\<^sup>* ?s0 ?s3" using 3 by (rule rtranclp.rtrancl_into_rtrancl)
  then have "pool_step\<^sup>*\<^sup>* ?s0 ?s4" using 4 by (rule rtranclp.rtrancl_into_rtrancl)
  then have "pool_step\<^sup>*\<^sup>* ?s0 ?s5" using 5 by (rule rtranclp.rtrancl_into_rtrancl)
  then have "pool_step\<^sup>*\<^sup>* ?s0 ?s6" using 6 by (rule rtranclp.rtrancl_into_rtrancl)
  then show ?thesis using 7 by (rule rtranclp.rtrancl_into_rtrancl)
qed

section \<open>Lemmas about the ordering pass\<close>























section \<open>Lemmas about the orchestrator\<close>

lemma task_appends:
  "category_task c cat st =
     st\<lparr>systemChan := systemChan st @ systemChan (sends c cat),
        networkChan := networkChan st @ networkChan (sends c cat),
        hardwareChan := hardwareChan st @ hardwareChan (sends c cat),
        piiChan := piiChan st @ piiChan (sends c cat),
        errChan := errChan st @ errChan (sends c cat),
        calls := calls st @ calls (sends c cat)\<rparr>"
  by (cases cat) (auto simp: sends_def channels_made_def split: reply.splits)

lemma task_fields:
  "systemChan (category_task c cat st) = systemChan st @ systemChan (sends c cat)"
  "networkChan (category_task c cat st) = networkChan st @ networkChan (sends c cat)"
  "hardwareChan (category_task c cat st) = hardwareChan st @ hardwareChan (sends c cat)"
  "piiChan (category_task c cat st) = piiChan st @ piiChan (sends c cat)"
  "errChan (category_task c cat st) = errChan st @ errChan (sends c cat)"
  "calls (category_task c cat st) = calls st @ calls (sends c cat)"
  by (subst task_appends, simp)+

lemma foldl_task_chans:
  "systemChan (foldl (\<lambda>st cat. category_task c cat st) st0 order)
     = systemChan st0 @ concat (map (\<lambda>cat. systemChan (sends c cat)) order)
   \<and> networkChan (foldl (\<lambda>st cat. category_task c cat st) st0 order)
     = networkChan st0 @ concat (map (\<lambda>cat. networkChan (sends c cat)) order)
   \<and> hardwareChan (foldl (\<lambda>st cat. category_task c cat st) st0 order)
     = hardwareChan st0 @ concat (map (\<lambda>cat. hardwareChan (sends c cat)) order)
   \<and> piiChan (foldl (\<lambda>st cat. category_task c cat st) st0 order)
     = piiChan st0 @ concat (map (\<lambda>cat. piiChan (sends c cat)) order)
   \<and> errChan (foldl (\<lambda>st cat. category_task c cat st) st0 order)
     = errChan st0 @ concat (map (\<lambda>cat. errChan (sends c cat)) order)
   \<and> calls (foldl (\<lambda>st cat. category_task c cat st) st0 order)
     = calls st0 @ concat (map (\<lambda>cat. calls (sends c cat)) order)"
proof (induction order arbitrary: st0)
  case Nil
  then show ?case by simp
next
  case (Cons cat order)
  from Cons.IH [of "category_task c cat st0"] show ?case by (simp add: task_fields)
qed

lemma concat_map_single:
  "distinct xs \<Longrightarrow> x \<in> set xs \<Longrightarrow> (\<And>y. y \<noteq> x \<Longrightarrow> g y = []) \<Longrightarrow> concat (map g xs) = g x"
proof (induction xs)
  case Nil
  then show ?case by simp
next
  case (Cons a xs)
  show ?case
  proof (cases "a = x")
    case True
    have "\<forall>y\<in>set xs. g y = []"
    proof
      fix y assume "y \<in> set xs"
      with True Cons.prems(1) have "y \<noteq> x" by auto
      then show "g y = []" by (rule Cons.prems(3))
    qed
    then have "concat (map g xs) = []" by simp
    with True show ?thesis by simp
  next
    case False
    with Cons show ?thesis by simp
  qed
qed

lemma completion_perm:
  "distinct (completion finish categories) \<and> set (completion finish categories) = UNIV"
proof -
  have "UNIV = set categories"
  proof -
    have "c \<in> set categories" for c by (cases c) (simp_all add: categories_def)
    then show ?thesis by blast
  qed
  moreover have "distinct categories" by (simp add: categories_def)
  ultimately show ?thesis by (simp add: completion_def)
qed

lemma sends_chans:
  "systemChan (sends c cat) =
     (if cat = CategorySystemInfo then
        (case GetSystemInfo (platformCollector c) of Failed e \<Rightarrow> [] | Replied i \<Rightarrow> [i]) else [])"
  "networkChan (sends c cat) =
     (if cat = CategoryNetworkInfo then
        (case GetNetworkInfo (platformCollector c) of Failed e \<Rightarrow> [] | Replied i \<Rightarrow> [i]) else [])"
  "hardwareChan (sends c cat) =
     (if cat = CategoryHardwareInfo then
        (case GetHardwareInfo (platformCollector c) of Failed e \<Rightarrow> [] | Replied i \<Rightarrow> [i]) else [])"
  "piiChan (sends c cat) =
     (if cat = CategoryPIIInfo \<and> PII (config c) then
        (case GetPIIInfo (platformCollector c) of Failed e \<Rightarrow> [] | Replied i \<Rightarrow> [i]) else [])"
  by (cases cat; simp add: sends_def channels_made_def split: reply.splits)+

lemma recv_run_tasks:
  assumes d: "distinct order" and u: "set order = UNIV"
  shows "recv (systemChan (run_tasks c order)) = delivered (GetSystemInfo (platformCollector c))"
    and "recv (networkChan (run_tasks c order)) = delivered (GetNetworkInfo (platformCollector c))"
    and "recv (hardwareChan (run_tasks c order)) = delivered (GetHardwareInfo (platformCollector c))"
    and "recv (piiChan (run_tasks c order)) =
           (if PII (config c) then delivered (GetPIIInfo (platformCollector c)) else None)"
proof -
  have m: "x \<in> set order" for x using u by simp
  have "concat (map (\<lambda>cat. systemChan (sends c cat)) order) = systemChan (sends c CategorySystemInfo)"
    by (rule concat_map_single [OF d m]) (simp add: sends_chans)
  then show "recv (systemChan (run_tasks c order)) = delivered (GetSystemInfo (platformCollector c))"
    by (simp add: run_tasks_def foldl_task_chans channels_made_def sends_chans recv_def
        delivered_def split: reply.splits)
  have "concat (map (\<lambda>cat. networkChan (sends c cat)) order) = networkChan (sends c CategoryNetworkInfo)"
    by (rule concat_map_single [OF d m]) (simp add: sends_chans)
  then show "recv (networkChan (run_tasks c order)) = delivered (GetNetworkInfo (platformCollector c))"
    by (simp add: run_tasks_def foldl_task_chans channels_made_def sends_chans recv_def
        delivered_def split: reply.splits)
  have "concat (map (\<lambda>cat. hardwareChan (sends c cat)) order) = hardwareChan (sends c CategoryHardwareInfo)"
    by (rule concat_map_single [OF d m]) (simp add: sends_chans)
  then show "recv (hardwareChan (run_tasks c order)) = delivered (GetHardwareInfo (platformCollector c))"
    by (simp add: run_tasks_def foldl_task_chans channels_made_def sends_chans recv_def
        delivered_def split: reply.splits)
  have "concat (map (\<lambda>cat. piiChan (sends c cat)) order) = piiChan (sends c CategoryPIIInfo)"
    by (rule concat_map_single [OF d m]) (simp add: sends_chans)
  then show "recv (piiChan (run_tasks c order)) =
           (if PII (config c) then delivered (GetPIIInfo (platformCollector c)) else None)"
    by (simp add: run_tasks_def foldl_task_chans channels_made_def sends_chans recv_def
        delivered_def split: reply.splits)
qed

lemma aggregate_run:
  "aggregate m (run_tasks c (completion finish categories)) (new_Facts clk)
     = merged_facts (platformCollector c) (PII (config c)) clk m"
  using completion_perm [of finish]
  by (simp add: aggregate_def merged_facts_def recv_run_tasks)

lemma submit_all_started:
  "submit_all pool ctx_at started cats = AllSubmitted fin \<Longrightarrow> fin = started @ cats"
proof (induction cats arbitrary: started)
  case Nil
  then show ?case by simp
next
  case (Cons a cats)
  from Cons.prems have "submit_all pool ctx_at (started @ [a]) cats = AllSubmitted fin"
    by (auto split: option.splits if_splits)
  from Cons.IH [OF this] show ?case by simp
qed

lemma submit_all_live:
  "\<forall>cat. ctx_at cat = None \<Longrightarrow> workers pool \<noteq> 0 \<Longrightarrow>
   submit_all pool ctx_at started cats = AllSubmitted (started @ cats)"
  by (induction cats arbitrary: started) auto

lemma CollectAll_facts:
  assumes "returned (CollectAll c ctx_at finish clk m) = ReturnsFacts f m'"
  shows "f = (merged_facts (platformCollector c) (PII (config c)) clk m)
               \<lparr>CollectionDurationMs := Milliseconds (since_start clk)\<rparr>"
    and "m' = sortFacts (merged_facts (platformCollector c) (PII (config c)) clk m) m"
    and "Validate f = None"
proof -
  from assms obtain pool where p: "NewBoundedPool (poolSize c) = Some (pool :: Category pool_state)"
    by (auto simp: CollectAll_def split: option.splits)
  from assms p obtain started where s: "submit_all pool ctx_at [] categories = AllSubmitted started"
    by (auto simp: CollectAll_def split: submitted.splits)
  from submit_all_started [OF s] have st: "started = categories" by simp
  from assms p s st
  have r: "(case Validate ((merged_facts (platformCollector c) (PII (config c)) clk m)
               \<lparr>CollectionDurationMs := Milliseconds (since_start clk)\<rparr>) of
              Some err \<Rightarrow> ReturnsError (FactsValidationFailed err)
            | None \<Rightarrow> ReturnsFacts ((merged_facts (platformCollector c) (PII (config c)) clk m)
               \<lparr>CollectionDurationMs := Milliseconds (since_start clk)\<rparr>)
               (sortFacts (merged_facts (platformCollector c) (PII (config c)) clk m) m))
           = ReturnsFacts f m'"
    by (simp add: CollectAll_def Let_def aggregate_run cong: option.case_cong)
  then show "f = (merged_facts (platformCollector c) (PII (config c)) clk m)
               \<lparr>CollectionDurationMs := Milliseconds (since_start clk)\<rparr>"
    and "m' = sortFacts (merged_facts (platformCollector c) (PII (config c)) clk m) m"
    by (auto split: option.splits)
  with r show "Validate f = None" by (auto split: option.splits)
qed

lemma CollectAll_live:
  assumes "\<forall>cat. ctx_at cat = None" and "1 \<le> poolSize c"
  shows "CollectAll c ctx_at finish clk m =
     \<lparr>returned =
        (case Validate ((merged_facts (platformCollector c) (PII (config c)) clk m)
               \<lparr>CollectionDurationMs := Milliseconds (since_start clk)\<rparr>) of
           Some err \<Rightarrow> ReturnsError (FactsValidationFailed err)
         | None \<Rightarrow> ReturnsFacts ((merged_facts (platformCollector c) (PII (config c)) clk m)
               \<lparr>CollectionDurationMs := Milliseconds (since_start clk)\<rparr>)
               (sortFacts (merged_facts (platformCollector c) (PII (config c)) clk m) m)),
      collectionErrors = errChan (run_tasks c (completion finish categories)),
      capabilityCalls = calls (run_tasks c (completion finish categories))\<rparr>"
proof -
  from assms(2) have p: "NewBoundedPool (poolSize c)
      = Some (\<lparr>workers = poolSize c, semaphore = 0, wg = 0, goroutines = []\<rparr> :: Category pool_state)"
    by (simp add: NewBoundedPool_def)
  from assms have s: "submit_all \<lparr>workers = poolSize c, semaphore = 0, wg = 0, goroutines = []\<rparr>
      ctx_at [] categories = AllSubmitted categories"
    using submit_all_live [of ctx_at "\<lparr>workers = poolSize c, semaphore = 0, wg = 0, goroutines = []\<rparr>" "[]" categories]
    by simp
  show ?thesis by (simp add: CollectAll_def p s Let_def aggregate_run cong: option.case_cong)
qed

lemma merged_fields:
  "Hostname (merged_facts pc pii clk m) =
     (case delivered (GetSystemInfo pc) of None \<Rightarrow> '''' | Some si \<Rightarrow> SI_Hostname si)"
  "OSName (merged_facts pc pii clk m) =
     (case delivered (GetSystemInfo pc) of None \<Rightarrow> '''' | Some si \<Rightarrow> SI_OSName si)"
  "HardwareUUID (merged_facts pc pii clk m) =
     (case delivered (GetHardwareInfo pc) of None \<Rightarrow> '''' | Some hi \<Rightarrow> HI_HardwareUUID hi)"
  "LocalIPs (merged_facts pc pii clk m) =
     (case delivered (GetNetworkInfo pc) of None \<Rightarrow> EmptySlice | Some ni \<Rightarrow> NI_Interfaces ni)"
  "MACAddresses (merged_facts pc pii clk m) =
     (case delivered (GetNetworkInfo pc) of None \<Rightarrow> EmptySlice | Some ni \<Rightarrow> NI_Interfaces ni)"
  "WiFiSSIDs (merged_facts pc pii clk m) =
     (case delivered (GetNetworkInfo pc) of None \<Rightarrow> EmptySlice | Some ni \<Rightarrow> NI_WiFiSSIDs ni)"
  by (simp_all add: merged_facts_def merge_pii_def merge_hardware_def merge_network_def
      merge_system_def new_Facts_def Let_def split: option.splits list.splits)

lemma merged_no_pii:
  "Users (merged_facts pc False clk m) = EmptySlice"
  "LoggedInUsers (merged_facts pc False clk m) = EmptySlice"
  "HomeDirs (merged_facts pc False clk m) = EmptySlice"
  "RecentProfiles (merged_facts pc False clk m) = EmptySlice"
  "PrimaryEmail (merged_facts pc False clk m) = ''''"
  "MachineOwner (merged_facts pc False clk m) = ''''"
  by (simp_all add: merged_facts_def merge_pii_def merge_hardware_def merge_network_def
      merge_system_def new_Facts_def Let_def split: option.splits list.splits)

lemma merged_clock:
  "merged_facts pc pii clk m = (merged_facts pc pii clk' m)\<lparr>Timestamp := now_stamp clk\<rparr>"
  by (simp add: merged_facts_def merge_pii_def merge_hardware_def merge_network_def
      merge_system_def new_Facts_def Let_def split: option.splits list.splits)

lemma sortFacts_Timestamp: "sortFacts (f\<lparr>Timestamp := t\<rparr>) m = sortFacts f m"
  by (simp add: sortFacts_def)

lemma sends_calls:
  "set (calls (sends c cat)) \<subseteq> {cat}"
  "fst ` set (errChan (sends c cat)) \<subseteq> {cat}"
  "\<not> PII (config c) \<Longrightarrow> calls (sends c CategoryPIIInfo) = []"
  "\<not> PII (config c) \<Longrightarrow> errChan (sends c CategoryPIIInfo) = []"
  by (cases cat; simp add: sends_def channels_made_def split: reply.splits)+

lemma run_tasks_no_pii:
  assumes "\<not> PII (config c)"
  shows "CategoryPIIInfo \<notin> set (calls (run_tasks c order))"
    and "CategoryPIIInfo \<notin> fst ` set (errChan (run_tasks c order))"
proof -
  have a: "CategoryPIIInfo \<notin> set (calls (sends c cat))" for cat
    using sends_calls(1) [of c cat] sends_calls(3) [OF assms] by (cases "cat = CategoryPIIInfo") auto
  have b: "CategoryPIIInfo \<notin> fst ` set (errChan (sends c cat))" for cat
    using sends_calls(2) [of c cat] sends_calls(4) [OF assms] by (cases "cat = CategoryPIIInfo") auto
  show "CategoryPIIInfo \<notin> set (calls (run_tasks c order))"
    using a by (simp add: run_tasks_def foldl_task_chans channels_made_def)
  show "CategoryPIIInfo \<notin> fst ` set (errChan (run_tasks c order))"
    using b by (auto simp: run_tasks_def foldl_task_chans channels_made_def)
qed

lemma CollectAll_observed:
  "(\<exists>order. capabilityCalls (CollectAll c ctx_at finish clk m) = calls (run_tasks c order)
          \<and> collectionErrors (CollectAll c ctx_at finish clk m) = errChan (run_tasks c order))
   \<or> (capabilityCalls (CollectAll c ctx_at finish clk m) = []
      \<and> collectionErrors (CollectAll c ctx_at finish clk m) = [])
   \<or> (\<exists>order. capabilityCalls (CollectAll c ctx_at finish clk m) = calls (run_tasks c order)
          \<and> collectionErrors (CollectAll c ctx_at finish clk m) = [])"
  by (auto simp: CollectAll_def Let_def split: option.splits submitted.splits)

section \<open>Lemmas about the key files\<close>

lemma saved_file:
  "SavePublicKey pem env key path fs = (None, fs') \<Longrightarrow>
     fs' path = Some (pem_EncodeToMemory pem \<lparr>Type = ''PUBLIC KEY'', Bytes = key\<rparr>)"
  "SavePrivateKey pem env key path fs = (None, fs') \<Longrightarrow>
     fs' path = Some (pem_EncodeToMemory pem \<lparr>Type = ''PRIVATE KEY'', Bytes = key\<rparr>)"
  by (auto simp: SavePublicKey_def SavePrivateKey_def os_WriteFile_def os_Rename_def Let_def
      split: if_splits)

section \<open>Determinism of the snapshot\<close>

text \<open>
  C1 as stated: two \<open>Facts\<close> built by \<open>CollectAll\<close> from identical category data serialize to
  identical bytes. \<open>CollectAll\<close> also writes two clock readings into the snapshot:
  \<open>Timestamp\<close> (\<open>time.Now().UTC()\<close>) and \<open>CollectionDurationMs\<close> (\<open>time.Since(startTime)\<close>). Both
  are fields of the serialized struct (\<open>json:"timestamp"\<close>, \<open>json:"collection_duration_ms"\<close>),
  so two runs on the same host with the same capability results, started a second apart
  and taking 42 and 43 milliseconds, give snapshots that differ in both fields.
\<close>

theorem collect_deterministic_counterexample:
  "map_option Timestamp (facts_of (returned
      (CollectAll (collector_of linux_box True 2) (\<lambda>_. None) (\<lambda>_. 0) clock_a box_memory))) = Some 6
   \<and> map_option Timestamp (facts_of (returned
      (CollectAll (collector_of linux_box True 2) (\<lambda>_. None) pii_first clock_b box_memory))) = Some 1006
   \<and> map_option CollectionDurationMs (facts_of (returned
      (CollectAll (collector_of linux_box True 2) (\<lambda>_. None) (\<lambda>_. 0) clock_a box_memory))) = Some 42
   \<and> map_option CollectionDurationMs (facts_of (returned
      (CollectAll (collector_of linux_box True 2) (\<lambda>_. None) pii_first clock_b box_memory))) = Some 43"
  by code_simp

text \<open>
  C1, amended. Take two runs of \<open>CollectAll\<close> over the same memory with the same replies of
  the four capability calls and the same PII setting, whatever the order in which the
  category tasks complete, the pool sizes and the clocks, and let both return \<open>Facts\<close>.
  Then the sorted arrays are the same and the two \<open>Facts\<close> agree on every field other than
  \<open>Timestamp\<close> and \<open>CollectionDurationMs\<close>. If the two clock readings agree as well, the two
  \<open>Facts\<close> are equal, and so is any serialization \<open>marshal\<close> of them.
\<close>

theorem collect_deterministic:
  assumes pc: "platformCollector c1 = platformCollector c2"
    and pii: "PII (config c1) = PII (config c2)"
    and r1: "returned (CollectAll c1 ctx1 finish1 clk1 m) = ReturnsFacts f1 m1"
    and r2: "returned (CollectAll c2 ctx2 finish2 clk2 m) = ReturnsFacts f2 m2"
  shows "m1 = m2
       \<and> f1\<lparr>Timestamp := t, CollectionDurationMs := d\<rparr>
           = f2\<lparr>Timestamp := t, CollectionDurationMs := d\<rparr>
       \<and> (now_stamp clk1 = now_stamp clk2
            \<and> Milliseconds (since_start clk1) = Milliseconds (since_start clk2)
          \<longrightarrow> f1 = f2 \<and> marshal f1 m1 = marshal f2 m2)"
proof -
  let ?g1 = "merged_facts (platformCollector c1) (PII (config c1)) clk1 m"
  let ?g2 = "merged_facts (platformCollector c2) (PII (config c2)) clk2 m"
  have g: "?g1 = ?g2\<lparr>Timestamp := now_stamp clk1\<rparr>"
    using merged_clock [of "platformCollector c2" "PII (config c2)" clk1 m clk2]
    by (simp add: pc pii)
  have f1: "f1 = ?g1\<lparr>CollectionDurationMs := Milliseconds (since_start clk1)\<rparr>"
    and m1: "m1 = sortFacts ?g1 m"
    using CollectAll_facts [OF r1] by simp_all
  have f2: "f2 = ?g2\<lparr>CollectionDurationMs := Milliseconds (since_start clk2)\<rparr>"
    and m2: "m2 = sortFacts ?g2 m"
    using CollectAll_facts [OF r2] by simp_all
  have M: "m1 = m2" by (simp only: m1 m2 g sortFacts_Timestamp)
  have F: "f1\<lparr>Timestamp := t, CollectionDurationMs := d\<rparr>
           = f2\<lparr>Timestamp := t, CollectionDurationMs := d\<rparr>"
    by (subst f1, subst f2, subst g, simp)
  have E: "f1 = f2" if "now_stamp clk1 = now_stamp clk2"
      and "Milliseconds (since_start clk1) = Milliseconds (since_start clk2)"
  proof -
    have "Timestamp ?g2 = now_stamp clk2"
      using merged_clock [of "platformCollector c2" "PII (config c2)" clk2 m clk2]
      by (metis Facts.select_convs(1) Facts.surjective Facts.update_convs(1))
    with that(1) have "?g1 = ?g2" by (subst g) simp
    with that(2) f1 f2 show ?thesis by simp
  qed
  from M F E show ?thesis by auto
qed

theorem collect_deterministic_witness:
  "\<exists>f1 m1 f2 m2.
     returned (CollectAll (collector_of linux_box True 1) (\<lambda>_. None) (\<lambda>_. 0) clock_a box_memory)
       = ReturnsFacts f1 m1
   \<and> returned (CollectAll (collector_of linux_box True 4) (\<lambda>_. None) pii_first clock_a box_memory)
       = ReturnsFacts f2 m2
   \<and> f1 = f2 \<and> m1 = m2"
proof -
  let ?r1 = "returned (CollectAll (collector_of linux_box True 1) (\<lambda>_. None) (\<lambda>_. 0) clock_a box_memory)"
  let ?r2 = "returned (CollectAll (collector_of linux_box True 4) (\<lambda>_. None) pii_first clock_a box_memory)"
  have "facts_of ?r1 \<noteq> None" by code_simp
  then obtain f1 m1 where r1: "?r1 = ReturnsFacts f1 m1" by (cases ?r1) simp_all
  have "facts_of ?r2 \<noteq> None" by code_simp
  then obtain f2 m2 where r2: "?r2 = ReturnsFacts f2 m2" by (cases ?r2) simp_all
  have pc: "platformCollector (collector_of linux_box True 1) = platformCollector (collector_of linux_box True 4)"
    and pii: "PII (config (collector_of linux_box True 1)) = PII (config (collector_of linux_box True 4))"
    by (simp_all add: collector_of_def)
  from collect_deterministic [OF pc pii r1 r2, where t = 0 and d = 0 and marshal = "\<lambda>f m. ()"]
  have "f1 = f2 \<and> m1 = m2" by simp
  with r1 r2 show ?thesis by blast
qed

section \<open>Bounded concurrency\<close>

text \<open>
  C3. For a pool created by \<open>NewBoundedPool n\<close>, in every state reached by any sequence of
  \<open>Submit\<close> calls (any number of tasks, so also every number of at least \<open>n\<close>) and
  goroutine steps, at most \<open>n\<close> submitted tasks are executing.
\<close>

theorem bounded_concurrency:
  assumes "NewBoundedPool n = Some s0" and "pool_step\<^sup>*\<^sup>* s0 s"
  shows "int (executing s) \<le> n"
proof -
  from assms(1) have "pool_inv s0" and w: "workers s0 = n"
    by (auto simp: NewBoundedPool_def pool_inv_def count_phase_def split: if_splits)
  with assms(2) have "pool_inv s" by (auto intro: pool_inv_reachable)
  moreover have "workers s = n" using reachable_workers [OF assms(2)] w by simp
  ultimately show ?thesis using executing_le_holding [of s] by (simp add: pool_inv_def)
qed

theorem bounded_concurrency_witness:
  "(NewBoundedPool 1 :: string pool_state option)
     = Some \<lparr>workers = 1, semaphore = 0, wg = 0, goroutines = []\<rparr>
   \<and> pool_step\<^sup>*\<^sup>* \<lparr>workers = 1, semaphore = 0, wg = 0, goroutines = []\<rparr> two_on_one
   \<and> executing two_on_one = 1
   \<and> int (executing two_on_one) \<le> 1"
proof -
  have n: "NewBoundedPool 1 = Some (\<lparr>workers = 1, semaphore = 0, wg = 0, goroutines = []\<rparr> :: string pool_state)"
    by (simp add: NewBoundedPool_def)
  have "executing two_on_one = 1"
    by (simp add: executing_def count_phase_def two_on_one_def)
  with n two_on_one_reachable bounded_concurrency [OF n two_on_one_reachable]
  show ?thesis by simp
qed

section \<open>Category errors and validation\<close>

text \<open>
  C4. Let no \<open>Submit\<close> return the context's error and let the pool have at least one worker
  (the configuration is validated before use: \<open>Config.Validate\<close> requires \<open>MaxGoroutines\<close>
  between 1 and 32, and \<open>NewCollector\<close> takes the pool size from it). Then \<open>CollectAll\<close>
  returns an error if and only if \<open>Hostname\<close>, \<open>OSName\<close> or \<open>HardwareUUID\<close> is empty after the
  merge, where these are the fields of the system and hardware results that arrived and
  empty otherwise; when it returns no error it returns \<open>Facts\<close> that validate. In
  particular, when the network capability fails while the system result has a hostname and
  an OS name and the hardware result has a UUID, the returned \<open>Facts\<close> validate and their
  \<open>LocalIPs\<close>, \<open>MACAddresses\<close> and \<open>WiFiSSIDs\<close> are the initial empty slices.
\<close>

theorem category_errors_not_fatal:
  assumes live: "\<forall>cat. ctx_at cat = None" and pool: "1 \<le> poolSize c"
  shows "((\<exists>e. returned (CollectAll c ctx_at finish clk m) = ReturnsError e) \<longleftrightarrow>
            Hostname (aggregate m (run_tasks c (completion finish categories)) (new_Facts clk)) = ''''
          \<or> OSName (aggregate m (run_tasks c (completion finish categories)) (new_Facts clk)) = ''''
          \<or> HardwareUUID (aggregate m (run_tasks c (completion finish categories)) (new_Facts clk)) = '''')
       \<and> ((\<exists>e. returned (CollectAll c ctx_at finish clk m) = ReturnsError e)
          \<or> (\<exists>f m'. returned (CollectAll c ctx_at finish clk m) = ReturnsFacts f m'
                 \<and> Validate f = None))
       \<and> Hostname (aggregate m (run_tasks c (completion finish categories)) (new_Facts clk))
           = (case delivered (GetSystemInfo (platformCollector c)) of
                None \<Rightarrow> '''' | Some si \<Rightarrow> SI_Hostname si)
       \<and> OSName (aggregate m (run_tasks c (completion finish categories)) (new_Facts clk))
           = (case delivered (GetSystemInfo (platformCollector c)) of
                None \<Rightarrow> '''' | Some si \<Rightarrow> SI_OSName si)
       \<and> HardwareUUID (aggregate m (run_tasks c (completion finish categories)) (new_Facts clk))
           = (case delivered (GetHardwareInfo (platformCollector c)) of
                None \<Rightarrow> '''' | Some hi \<Rightarrow> HI_HardwareUUID hi)
       \<and> (\<forall>err si hi.
             GetNetworkInfo (platformCollector c) = Failed err
           \<and> GetSystemInfo (platformCollector c) = Replied (Some si)
           \<and> SI_Hostname si \<noteq> '''' \<and> SI_OSName si \<noteq> ''''
           \<and> GetHardwareInfo (platformCollector c) = Replied (Some hi)
           \<and> HI_HardwareUUID hi \<noteq> ''''
           \<longrightarrow> (\<exists>f m'. returned (CollectAll c ctx_at finish clk m) = ReturnsFacts f m'
                  \<and> Validate f = None
                  \<and> LocalIPs f = EmptySlice \<and> MACAddresses f = EmptySlice
                  \<and> WiFiSSIDs f = EmptySlice))"
proof -
  let ?g = "merged_facts (platformCollector c) (PII (config c)) clk m"
  let ?f = "?g\<lparr>CollectionDurationMs := Milliseconds (since_start clk)\<rparr>"
  have R: "returned (CollectAll c ctx_at finish clk m) =
      (case Validate ?f of Some err \<Rightarrow> ReturnsError (FactsValidationFailed err)
       | None \<Rightarrow> ReturnsFacts ?f (sortFacts ?g m))"
    by (simp add: CollectAll_live [OF live pool])
  have V: "Validate ?f = None \<longleftrightarrow> \<not> (Hostname ?g = '''' \<or> OSName ?g = '''' \<or> HardwareUUID ?g = '''')"
    by (simp add: Validate_def)
  have 1: "(\<exists>e. returned (CollectAll c ctx_at finish clk m) = ReturnsError e) \<longleftrightarrow>
            Hostname ?g = '''' \<or> OSName ?g = '''' \<or> HardwareUUID ?g = ''''"
    using V by (cases "Validate ?f") (simp_all add: R)
  have 2: "(\<exists>e. returned (CollectAll c ctx_at finish clk m) = ReturnsError e)
          \<or> (\<exists>f m'. returned (CollectAll c ctx_at finish clk m) = ReturnsFacts f m'
                 \<and> Validate f = None)"
    by (cases "Validate ?f") (simp_all add: R)
  have 3: "\<exists>f m'. returned (CollectAll c ctx_at finish clk m) = ReturnsFacts f m'
                  \<and> Validate f = None
                  \<and> LocalIPs f = EmptySlice \<and> MACAddresses f = EmptySlice
                  \<and> WiFiSSIDs f = EmptySlice"
    if "GetNetworkInfo (platformCollector c) = Failed err"
      "GetSystemInfo (platformCollector c) = Replied (Some si)"
      "SI_Hostname si \<noteq> ''''" "SI_OSName si \<noteq> ''''"
      "GetHardwareInfo (platformCollector c) = Replied (Some hi)"
      "HI_HardwareUUID hi \<noteq> ''''" for err si hi
  proof -
    from that have "Validate ?f = None"
      by (simp add: V merged_fields delivered_def)
    moreover from that have "LocalIPs ?f = EmptySlice" "MACAddresses ?f = EmptySlice"
      "WiFiSSIDs ?f = EmptySlice"
      by (simp_all add: merged_fields delivered_def)
    ultimately show ?thesis by (simp add: R)
  qed
  from 1 2 3 show ?thesis by (simp only: aggregate_run merged_fields) blast
qed

theorem category_errors_not_fatal_witness:
  "(\<forall>cat. (\<lambda>_. None :: ctx) cat = None) \<and> 1 \<le> poolSize (collector_of no_network True 2)
   \<and> GetNetworkInfo (platformCollector (collector_of no_network True 2))
       = Failed ''context deadline exceeded''
   \<and> (\<exists>f m'. returned (CollectAll (collector_of no_network True 2) (\<lambda>_. None) pii_first clock_a box_memory)
         = ReturnsFacts f m'
       \<and> Validate f = None \<and> LocalIPs f = EmptySlice \<and> MACAddresses f = EmptySlice
       \<and> WiFiSSIDs f = EmptySlice)"
proof -
  have live: "\<forall>cat. (\<lambda>_. None :: ctx) cat = None" by simp
  have pool: "1 \<le> poolSize (collector_of no_network True 2)" by (simp add: collector_of_def)
  have n: "GetNetworkInfo (platformCollector (collector_of no_network True 2))
       = Failed ''context deadline exceeded''"
    by (simp add: collector_of_def no_network_def)
  have s: "GetSystemInfo (platformCollector (collector_of no_network True 2))
       = Replied (Some \<lparr>SI_OSName = ''Linux'', SI_OSVersion = ''6.2.0'',
          SI_OSBuild = ''jammy'', SI_Timezone = ''UTC'', SI_Hostname = ''box''\<rparr>)"
    by (simp add: collector_of_def no_network_def linux_box_def)
  have hw: "GetHardwareInfo (platformCollector (collector_of no_network True 2))
       = Replied (Some \<lparr>HI_SerialNumber = ''S1'', HI_HardwareUUID = ''U1''\<rparr>)"
    by (simp add: collector_of_def no_network_def linux_box_def)
  from category_errors_not_fatal [OF live pool, of pii_first clock_a box_memory] n s hw
  have "\<exists>f m'. returned (CollectAll (collector_of no_network True 2) (\<lambda>_. None) pii_first clock_a box_memory)
         = ReturnsFacts f m'
       \<and> Validate f = None \<and> LocalIPs f = EmptySlice \<and> MACAddresses f = EmptySlice
       \<and> WiFiSSIDs f = EmptySlice"
    by simp
  with live pool n show ?thesis by blast
qed

section \<open>Failures of the atomic writer\<close>




section \<open>Key envelope integrity\<close>

text \<open>
  C6. Where the PEM codec decodes what it encoded for the block in question: a file
  written by \<open>SavePublicKey\<close> is refused by \<open>LoadPrivateKey\<close>, and a file written by
  \<open>SavePrivateKey\<close> is refused by \<open>LoadPublicKey\<close>, each with the error for the block type.
  And for any file whose first PEM block has bytes of a length other than 64,
  \<open>LoadPrivateKey\<close> returns an error (for the type tag if that is wrong, for the size
  otherwise); likewise \<open>LoadPublicKey\<close> for a length other than 32.
\<close>

theorem key_envelope_integrity:
  "(pem_Decode pem (pem_EncodeToMemory pem \<lparr>Type = ''PUBLIC KEY'', Bytes = key\<rparr>)
      = Some \<lparr>Type = ''PUBLIC KEY'', Bytes = key\<rparr>
    \<and> SavePublicKey pem env key path fs = (None, fs')
    \<longrightarrow> LoadPrivateKey pem fs' path = Inl (InvalidPEMBlockType ''PUBLIC KEY''))
   \<and> (pem_Decode pem (pem_EncodeToMemory pem \<lparr>Type = ''PRIVATE KEY'', Bytes = key\<rparr>)
      = Some \<lparr>Type = ''PRIVATE KEY'', Bytes = key\<rparr>
    \<and> SavePrivateKey pem env key path fs = (None, fs')
    \<longrightarrow> LoadPublicKey pem fs' path = Inl (InvalidPEMBlockType ''PRIVATE KEY''))
   \<and> (files p = Some data \<and> pem_Decode pem data = Some block \<and> length (Bytes block) \<noteq> 64
    \<longrightarrow> LoadPrivateKey pem files p =
          Inl (if Type block \<noteq> ''PRIVATE KEY'' then InvalidPEMBlockType (Type block)
               else InvalidPrivateKeySize (length (Bytes block))))
   \<and> (files p = Some data \<and> pem_Decode pem data = Some block \<and> length (Bytes block) \<noteq> 32
    \<longrightarrow> LoadPublicKey pem files p =
          Inl (if Type block \<noteq> ''PUBLIC KEY'' then InvalidPEMBlockType (Type block)
               else InvalidPublicKeySize (length (Bytes block))))"
proof (intro conjI impI)
  assume a: "pem_Decode pem (pem_EncodeToMemory pem \<lparr>Type = ''PUBLIC KEY'', Bytes = key\<rparr>)
      = Some \<lparr>Type = ''PUBLIC KEY'', Bytes = key\<rparr>
    \<and> SavePublicKey pem env key path fs = (None, fs')"
  with saved_file(1) [of pem env key path fs fs']
  show "LoadPrivateKey pem fs' path = Inl (InvalidPEMBlockType ''PUBLIC KEY'')"
    by (simp add: LoadPrivateKey_def)
next
  assume a: "pem_Decode pem (pem_EncodeToMemory pem \<lparr>Type = ''PRIVATE KEY'', Bytes = key\<rparr>)
      = Some \<lparr>Type = ''PRIVATE KEY'', Bytes = key\<rparr>
    \<and> SavePrivateKey pem env key path fs = (None, fs')"
  with saved_file(2) [of pem env key path fs fs']
  show "LoadPublicKey pem fs' path = Inl (InvalidPEMBlockType ''PRIVATE KEY'')"
    by (simp add: LoadPublicKey_def)
next
  assume "files p = Some data \<and> pem_Decode pem data = Some block \<and> length (Bytes block) \<noteq> 64"
  then show "LoadPrivateKey pem files p =
          Inl (if Type block \<noteq> ''PRIVATE KEY'' then InvalidPEMBlockType (Type block)
               else InvalidPrivateKeySize (length (Bytes block)))"
    by (simp add: LoadPrivateKey_def PrivateKeySize_def)
next
  assume "files p = Some data \<and> pem_Decode pem data = Some block \<and> length (Bytes block) \<noteq> 32"
  then show "LoadPublicKey pem files p =
          Inl (if Type block \<noteq> ''PUBLIC KEY'' then InvalidPEMBlockType (Type block)
               else InvalidPublicKeySize (length (Bytes block)))"
    by (simp add: LoadPublicKey_def PublicKeySize_def)
qed

theorem key_envelope_integrity_witness:
  "SavePublicKey tagged_codec (failing []) [9, 8, 7] ''keys/pub.pem'' Map.empty
     = (None, [''keys/pub.pem'' \<mapsto> [0, 9, 8, 7]])
   \<and> LoadPrivateKey tagged_codec [''keys/pub.pem'' \<mapsto> [0, 9, 8, 7]] ''keys/pub.pem''
     = Inl (InvalidPEMBlockType ''PUBLIC KEY'')
   \<and> LoadPublicKey tagged_codec [''keys/pub.pem'' \<mapsto> [0, 9, 8, 7]] ''keys/pub.pem''
     = Inl (InvalidPublicKeySize 3)"
proof -
  have d: "pem_Decode tagged_codec (pem_EncodeToMemory tagged_codec \<lparr>Type = ''PUBLIC KEY'', Bytes = [9, 8, 7]\<rparr>)
      = Some \<lparr>Type = ''PUBLIC KEY'', Bytes = [9, 8, 7]\<rparr>"
    by (simp add: tagged_codec_def)
  have s: "SavePublicKey tagged_codec (failing []) [9, 8, 7] ''keys/pub.pem'' Map.empty
     = (None, [''keys/pub.pem'' \<mapsto> [0, 9, 8, 7]])"
    by (simp add: SavePublicKey_def os_WriteFile_def os_Rename_def failing_def tagged_codec_def
        Let_def fun_eq_iff)
  have l: "[''keys/pub.pem'' \<mapsto> [0, 9, 8, 7 :: 8 word]] ''keys/pub.pem'' = Some [0, 9, 8, 7]
      \<and> pem_Decode tagged_codec [0, 9, 8, 7] = Some \<lparr>Type = ''PUBLIC KEY'', Bytes = [9, 8, 7]\<rparr>
      \<and> length (Bytes \<lparr>Type = ''PUBLIC KEY'', Bytes = [9, 8, 7 :: 8 word]\<rparr>) \<noteq> 32"
    by (simp add: tagged_codec_def)
  from key_envelope_integrity [where pem = tagged_codec and key = "[9, 8, 7]"
      and env = "failing []" and path = "''keys/pub.pem''" and fs = Map.empty
      and fs' = "[''keys/pub.pem'' \<mapsto> [0, 9, 8, 7]]"
      and files = "[''keys/pub.pem'' \<mapsto> [0, 9, 8, 7]]" and p = "''keys/pub.pem''"
      and data = "[0, 9, 8, 7]" and block = "\<lparr>Type = ''PUBLIC KEY'', Bytes = [9, 8, 7]\<rparr>"] d s l
  show ?thesis by simp
qed

section \<open>Submitting to the pool\<close>

text \<open>
  C7 as stated: if the context expires before a slot is acquired, \<open>Submit\<close> returns a
  cancellation error and the task is never started. A context that is already done when
  \<open>Submit\<close> is called has expired before any slot was acquired; if a slot is free, both
  cases of the \<open>select\<close> can proceed, Go picks one at random, and the send may win:
  \<open>Submit\<close> then returns \<open>nil\<close> and the task's goroutine is spawned. The source has no
  check of \<open>ctx.Err()\<close> before the \<open>select\<close>.
\<close>

theorem submit_after_expiry_counterexample:
  "Submit (Some DeadlineExceeded) ''pii_info''
     \<lparr>workers = 1, semaphore = 0, wg = 0, goroutines = []\<rparr>
     (None, \<lparr>workers = 1, semaphore = 1, wg = 1, goroutines = [(''pii_info'', Spawned)]\<rparr>)"
  using Submit.slot_acquired
    [of "\<lparr>workers = 1, semaphore = 0, wg = 0, goroutines = []\<rparr>" "Some DeadlineExceeded" "''pii_info''"]
  by (simp add: spawn_def)

text \<open>
  C7, amended. Whenever \<open>Submit\<close> returns an error, the context is done, the error is
  \<open>ctx.Err()\<close> and the task is never started (the pool and its goroutines are as before).
  Whenever it returns \<open>nil\<close>, it has acquired a slot and spawned the task's goroutine,
  which has not yet called the task: \<open>Submit\<close> does not wait for it. If the context is
  not done, \<open>Submit\<close> returns only \<open>nil\<close>; if no slot is free, it returns only the
  cancellation error. A done context makes the error return possible and a free slot
  makes the \<open>nil\<close> return possible; when the context is done and a slot is free, either
  may happen.
\<close>

theorem submit_outcomes:
  "(Submit c task s (r, s') \<longrightarrow>
      (r \<noteq> None \<longrightarrow> r = c \<and> s' = s)
    \<and> (r = None \<longrightarrow> int (semaphore s) < workers s \<and> s' = spawn task s
         \<and> goroutines s' = goroutines s @ [(task, Spawned)])
    \<and> (c = None \<longrightarrow> r = None)
    \<and> (\<not> int (semaphore s) < workers s \<longrightarrow> r = c \<and> r \<noteq> None))
   \<and> (c = Some e \<longrightarrow> Submit c task s (Some e, s))
   \<and> (int (semaphore s) < workers s \<longrightarrow> Submit c task s (None, spawn task s))"
proof (intro conjI impI)
  assume "c = Some e" then show "Submit c task s (Some e, s)" by (rule Submit.ctx_done)
next
  assume "int (semaphore s) < workers s"
  then show "Submit c task s (None, spawn task s)" by (rule Submit.slot_acquired)
qed (auto elim!: Submit.cases simp: spawn_def)

theorem submit_outcomes_witness:
  "Submit (Some Canceled) ''pii_info'' pool_full (Some Canceled, pool_full)
   \<and> \<not> int (semaphore pool_full) < workers pool_full
   \<and> goroutines pool_full = [(''system_info'', InTask)]"
proof -
  have b: "\<not> int (semaphore pool_full) < workers pool_full"
    by (simp add: pool_full_def)
  have c: "goroutines pool_full = [(''system_info'', InTask)]"
    by (simp add: pool_full_def)
  from submit_outcomes [of "Some Canceled" "''pii_info''" pool_full "Some Canceled" pool_full Canceled]
  have "Submit (Some Canceled) ''pii_info'' pool_full (Some Canceled, pool_full)" by blast
  with b c show ?thesis by blast
qed

section \<open>Directory fsync failure\<close>

text \<open>
  C8. When every step up to and including the rename succeeds and the directory fsync
  fails (the directory cannot be opened or its fsync returns an error), \<open>WriteAtomic\<close>
  reports the failure, the destination holds the complete new payload and the temporary
  file is gone: the renamed file is not removed.
\<close>

theorem dir_sync_failure_keeps_payload:
  assumes "\<not> fails env SysMkdirAll" "\<not> fails env SysOpenFile" "\<not> fails env SysWrite"
    "\<not> fails env SysSync" "\<not> fails env SysClose" "\<not> fails env SysRename"
    "syncDirectory env"
  shows "fst (WriteAtomic env path data fs) = Some WarningFailedToSyncDirectory
       \<and> snd (WriteAtomic env path data fs) path = Some data
       \<and> snd (WriteAtomic env path data fs) (path @ ''.tmp'') = None"
  using assms by (simp add: WriteAtomic_def os_Rename_def Let_def)

theorem dir_sync_failure_keeps_payload_witness:
  "syncDirectory (failing [SysSyncDir])
   \<and> fst (WriteAtomic (failing [SysSyncDir]) ''out/facts.json'' [1, 2, 3] Map.empty)
       = Some WarningFailedToSyncDirectory
   \<and> snd (WriteAtomic (failing [SysSyncDir]) ''out/facts.json'' [1, 2, 3] Map.empty)
       ''out/facts.json'' = Some [1, 2, 3]"
  using dir_sync_failure_keeps_payload
    [of "failing [SysSyncDir]" "''out/facts.json''" "[1, 2, 3]" Map.empty]
  by (simp add: failing_def syncDirectory_def)

section \<open>The PII gate\<close>

text \<open>
  C9. When PII collection is disabled, \<open>CollectAll\<close> never invokes \<open>GetPIIInfo\<close>, records
  no error of the PII category in \<open>collectionErrors\<close>, and any \<open>Facts\<close> it returns have
  \<open>Users\<close>, \<open>LoggedInUsers\<close>, \<open>HomeDirs\<close> and \<open>RecentProfiles\<close> at the initial empty slice and
  \<open>PrimaryEmail\<close> and \<open>MachineOwner\<close> empty. This holds for every context, schedule, clock
  and pool size.
\<close>

theorem pii_gate:
  assumes "\<not> PII (config c)"
  shows "CategoryPIIInfo \<notin> set (capabilityCalls (CollectAll c ctx_at finish clk m))
       \<and> CategoryPIIInfo \<notin> fst ` set (collectionErrors (CollectAll c ctx_at finish clk m))
       \<and> (\<forall>f m'. returned (CollectAll c ctx_at finish clk m) = ReturnsFacts f m' \<longrightarrow>
             Users f = EmptySlice \<and> LoggedInUsers f = EmptySlice \<and> HomeDirs f = EmptySlice
           \<and> RecentProfiles f = EmptySlice \<and> PrimaryEmail f = '''' \<and> MachineOwner f = '''')"
proof (intro conjI allI impI)
  show "CategoryPIIInfo \<notin> set (capabilityCalls (CollectAll c ctx_at finish clk m))"
    using CollectAll_observed [of c ctx_at finish clk m] run_tasks_no_pii(1) [OF assms]
    by auto
  show "CategoryPIIInfo \<notin> fst ` set (collectionErrors (CollectAll c ctx_at finish clk m))"
    using CollectAll_observed [of c ctx_at finish clk m] run_tasks_no_pii(2) [OF assms]
    by (elim disjE exE conjE) simp_all
next
  fix f m'
  assume r: "returned (CollectAll c ctx_at finish clk m) = ReturnsFacts f m'"
  from CollectAll_facts(1) [OF r] assms
  have f: "f = (merged_facts (platformCollector c) False clk m)
               \<lparr>CollectionDurationMs := Milliseconds (since_start clk)\<rparr>" by simp
  show "Users f = EmptySlice" "LoggedInUsers f = EmptySlice" "HomeDirs f = EmptySlice"
    "RecentProfiles f = EmptySlice" "PrimaryEmail f = ''''" "MachineOwner f = ''''"
    by (simp_all add: f merged_no_pii)
qed

theorem pii_gate_witness:
  "\<not> PII (config (collector_of linux_box False 2))
   \<and> capabilityCalls (CollectAll (collector_of linux_box False 2) (\<lambda>_. None) pii_first clock_a box_memory)
       = [CategorySystemInfo, CategoryNetworkInfo, CategoryHardwareInfo]
   \<and> CategoryPIIInfo \<notin> set (capabilityCalls
        (CollectAll (collector_of linux_box False 2) (\<lambda>_. None) pii_first clock_a box_memory))
   \<and> map_option Users (facts_of (returned
        (CollectAll (collector_of linux_box False 2) (\<lambda>_. None) pii_first clock_a box_memory)))
       = Some EmptySlice"
proof -
  have h: "\<not> PII (config (collector_of linux_box False 2))"
    by (simp add: collector_of_def)
  have c: "capabilityCalls (CollectAll (collector_of linux_box False 2) (\<lambda>_. None) pii_first clock_a box_memory)
       = [CategorySystemInfo, CategoryNetworkInfo, CategoryHardwareInfo]"
    by code_simp
  have u: "map_option Users (facts_of (returned
        (CollectAll (collector_of linux_box False 2) (\<lambda>_. None) pii_first clock_a box_memory)))
       = Some EmptySlice"
    by code_simp
  from pii_gate [OF h, of "\<lambda>_. None" pii_first clock_a box_memory] h c u
  show ?thesis by simp
qed

section \<open>Idempotence of the ordering pass\<close>


end
